theory Spec2Isabelle
  imports Complex_Main
begin

section \<open>JavaScript values read by the complaint model\<close>

text \<open>
  A JavaScript Number is an IEEE-754 double. The classifier only compares the two scores
  with literals and never computes with them, and the order of finite doubles is the order
  of the reals they denote, so a finite Number is modelled by the real it denotes; NaN and
  the two infinities are kept as values of their own. A document path that holds
  \<open>undefined\<close> or \<open>null\<close> is \<open>None\<close>.
\<close>

datatype number = NaN | NegInf | Fin real | PosInf

text \<open>\<open>x >= c\<close> and \<open>x <= c\<close> for a finite literal \<open>c\<close>: every comparison with NaN is false.\<close>

fun num_ge :: "number \<Rightarrow> real \<Rightarrow> bool" where
  "num_ge NaN c = False"
| "num_ge NegInf c = False"
| "num_ge (Fin x) c = (x \<ge> c)"
| "num_ge PosInf c = True"

fun num_le :: "number \<Rightarrow> real \<Rightarrow> bool" where
  "num_le NaN c = False"
| "num_le NegInf c = True"
| "num_le (Fin x) c = (x \<le> c)"
| "num_le PosInf c = False"

text \<open>\<open>x || d\<close> on a path of type Number: \<open>undefined\<close>, \<open>null\<close>, \<open>NaN\<close> and \<open>0\<close> are falsy.\<close>

fun num_or :: "number option \<Rightarrow> number \<Rightarrow> number" where
  "num_or None d = d"
| "num_or (Some NaN) d = d"
| "num_or (Some (Fin x)) d = (if x = 0 then d else Fin x)"
| "num_or (Some NegInf) d = NegInf"
| "num_or (Some PosInf) d = PosInf"

text \<open>
  The literal \<open>-0.3\<close> has no exact double; the comparison in the source is with the double
  nearest to it, \<open>-5404319552844595 / 2^54\<close>. The other literals (8, 6, 4, 3, -0.5, 5, 0)
  are exact.
\<close>

definition lit_m0_3 :: real where
  "lit_m0_3 = - (5404319552844595 / 18014398509481984)"

text \<open>Truthiness of a string path: \<open>undefined\<close>, \<open>null\<close> and the empty string are falsy.\<close>

fun truthy_str :: "string option \<Rightarrow> bool" where
  "truthy_str None = False"
| "truthy_str (Some s) = (s \<noteq> [])"

section \<open>The complaint document (ComplaintSchema)\<close>

datatype tier = Low | Medium | High | Critical

record updater =
  name :: string
  role :: string
  email :: string

record update_entry =
  upd_status :: "string option"
  message :: "string option"
  updatedBy :: "updater option"
  internal :: bool
  timestamp :: nat

text \<open>
  The paths of the schema that the methods read or write. \<open>sentiment_score\<close> is the path
  \<open>aiAnalysis.sentiment.score\<close> and \<open>urgencyScore\<close> is \<open>aiAnalysis.urgencyScore\<close>.
  Every other path of the schema lives in the extension part of the record, so a statement
  over \<open>'a complaint_scheme\<close> speaks about those paths too.
\<close>

record complaint =
  ticketId :: "string option"
  status :: string
  priority :: tier
  urgencyScore :: "number option"
  sentiment_score :: "number option"
  updates :: "update_entry list"

text \<open>The enum of the \<open>status\<close> path.\<close>

definition status_values :: "string list" where
  "status_values = [''submitted'', ''received'', ''under_review'', ''investigating'',
     ''pending_response'', ''resolved'', ''closed'', ''escalated'']"

text \<open>
  A document built from the schema defaults alone: \<open>priority\<close> defaults to Medium,
  \<open>status\<close> to submitted, \<open>aiAnalysis.urgencyScore\<close> to 5, an array path to the empty
  array; \<open>ticketId\<close> and \<open>aiAnalysis.sentiment.score\<close> have no default.
\<close>

definition new_complaint :: complaint where
  "new_complaint = \<lparr> ticketId = None, status = ''submitted'', priority = Medium,
     urgencyScore = Some (Fin 5), sentiment_score = None, updates = [] \<rparr>"

section \<open>calculatePriority\<close>

text \<open>The tier chosen by the if-chain of \<open>calculatePriority\<close>, defaults included.\<close>

definition priority_of :: "number option \<Rightarrow> number option \<Rightarrow> tier" where
  "priority_of u s =
     (let urgency = num_or u (Fin 5);
          sentiment = num_or s (Fin 0)
      in if num_ge urgency 8 \<or> (num_ge urgency 6 \<and> num_le sentiment (- 0.5)) then Critical
         else if num_ge urgency 6 \<or> (num_ge urgency 4 \<and> num_le sentiment lit_m0_3) then High
         else if num_ge urgency 3 then Medium
         else Low)"

text \<open>
  The method assigns the tier to \<open>this.priority\<close> and returns it. The state is the
  in-memory document together with its durable copy (\<open>None\<close>: never saved); the method
  does not call \<open>save\<close>.
\<close>

definition calculatePriority ::
  "'a complaint_scheme \<times> 'a complaint_scheme option
     \<Rightarrow> tier \<times> ('a complaint_scheme \<times> 'a complaint_scheme option)" where
  "calculatePriority st =
     (case st of (this, db) \<Rightarrow>
        let p = priority_of (urgencyScore this) (sentiment_score this)
        in (p, (this\<lparr>priority := p\<rparr>, db)))"

subsection \<open>The rule table of the specification\<close>

text \<open>
  The table as the specification words it, on two numbers in the same arithmetic as the
  code (so its \<open>-0.3\<close> is the same literal), first match wins.
\<close>

definition rule_table :: "real \<Rightarrow> real \<Rightarrow> tier" where
  "rule_table urgency sentiment =
     (if urgency \<ge> 8 \<or> (urgency \<ge> 6 \<and> sentiment \<le> - 0.5) then Critical
      else if urgency \<ge> 6 \<or> (urgency \<ge> 4 \<and> sentiment \<le> lit_m0_3) then High
      else if urgency \<ge> 3 then Medium
      else Low)"

definition clamp :: "real \<Rightarrow> real \<Rightarrow> real \<Rightarrow> real" where
  "clamp lo hi x = max lo (min hi x)"

section \<open>Ticket identifiers (the pre-save middleware)\<close>

text \<open>
  \<open>Number.prototype.toString(36)\<close> on a non-negative integer, and
  \<open>String.prototype.toUpperCase\<close> on the ASCII strings it produces.
\<close>

definition digit36 :: "nat \<Rightarrow> char" where
  "digit36 d = ''0123456789abcdefghijklmnopqrstuvwxyz'' ! d"

function toString36 :: "nat \<Rightarrow> string" where
  "toString36 n =
     (if n < 36 then [digit36 n] else toString36 (n div 36) @ [digit36 (n mod 36)])"
  by pat_completeness auto
termination
  by (relation "measure (\<lambda>n. n)") auto

definition upper_char :: "char \<Rightarrow> char" where
  "upper_char c =
     (let n = (of_char c :: nat) in if 97 \<le> n \<and> n \<le> 122 then char_of (n - 32) else c)"

definition toUpperCase :: "string \<Rightarrow> string" where
  "toUpperCase s = map upper_char s"

text \<open>\<open>s.substring(2, 8)\<close>: the characters at positions 2 to 7, fewer if \<open>s\<close> is short.\<close>

definition substring_2_8 :: "string \<Rightarrow> string" where
  "substring_2_8 s = take 6 (drop 2 s)"

text \<open>
  What a call reads from its surroundings: the clock (\<open>Date.now()\<close>, milliseconds), the
  text of \<open>Math.random().toString(36)\<close>, whether the validators of the paths outside
  this model pass, and whether the durable write succeeds.
\<close>

record env =
  clock :: nat
  random36 :: string
  paths_valid :: bool
  write_ok :: bool

definition make_ticketId :: "env \<Rightarrow> string" where
  "make_ticketId e =
     (let timestamp = toUpperCase (toString36 (clock e));
          random = toUpperCase (substring_2_8 (random36 e))
      in ''COMP-'' @ timestamp @ ''-'' @ random)"

definition pre_save :: "env \<Rightarrow> 'a complaint_scheme \<Rightarrow> 'a complaint_scheme" where
  "pre_save e this =
     (if \<not> truthy_str (ticketId this) then this\<lparr>ticketId := Some (make_ticketId e)\<rparr>
      else this)"

section \<open>save and addUpdate\<close>

datatype error = ValidationError | PersistenceError

definition valid_status :: "string \<Rightarrow> bool" where
  "valid_status s = (s \<in> set status_values)"

text \<open>
  \<open>save()\<close> of the document library, as far as the schema of this repository decides it:
  validation runs first and rejects with a ValidationError before anything else happens;
  then the pre-save middleware runs; then the document is written, and a failed write
  rejects with the store's error. The promise resolves to the document. The validators
  are the enum of \<open>status\<close>, the \<open>required\<close> validator of \<open>ticketId\<close> (a required string
  path must hold a non-empty string) and, through \<open>paths_valid\<close>, those of the paths
  outside this model. Validation comes before the middleware, so a document without a
  ticket id is rejected and the middleware never gets to give it one.
\<close>

definition save ::
  "env \<Rightarrow> 'a complaint_scheme \<times> 'a complaint_scheme option
     \<Rightarrow> (error + 'a complaint_scheme) \<times> ('a complaint_scheme \<times> 'a complaint_scheme option)"
  where
  "save e st =
     (case st of (this, db) \<Rightarrow>
        if \<not> (valid_status (status this) \<and> truthy_str (ticketId this) \<and> paths_valid e)
        then (Inl ValidationError, (this, db))
        else let this' = pre_save e this
             in if write_ok e then (Inr this', (this', Some this'))
                else (Inl PersistenceError, (this', db)))"

text \<open>
  The arguments of one \<open>addUpdate\<close> call: \<open>None\<close> is an argument that is
  \<open>undefined\<close>; \<open>c_now\<close> is the value of \<open>new Date()\<close>. The method pushes
  the entry, overwrites \<open>status\<close> if the argument is truthy (a non-empty string), and
  returns what \<open>save\<close> returns.
\<close>

record call =
  c_status :: "string option"
  c_message :: "string option"
  c_updatedBy :: "updater option"
  c_internal :: "bool option"
  c_now :: nat
  c_env :: env

definition entry_of :: "call \<Rightarrow> update_entry" where
  "entry_of c =
     \<lparr> upd_status = c_status c, message = c_message c, updatedBy = c_updatedBy c,
       internal = (case c_internal c of None \<Rightarrow> False | Some b \<Rightarrow> b),
       timestamp = c_now c \<rparr>"

definition addUpdate ::
  "call \<Rightarrow> 'a complaint_scheme \<times> 'a complaint_scheme option
     \<Rightarrow> (error + 'a complaint_scheme) \<times> ('a complaint_scheme \<times> 'a complaint_scheme option)"
  where
  "addUpdate c st =
     (case st of (this, db) \<Rightarrow>
        let this1 = this\<lparr>updates := updates this @ [entry_of c]\<rparr>;
            this2 = (case c_status c of
                       None \<Rightarrow> this1
                     | Some s \<Rightarrow> if s \<noteq> [] then this1\<lparr>status := s\<rparr> else this1)
        in save (c_env c) (this2, db))"

text \<open>Whether the promise of a call resolved.\<close>

fun succeeded :: "error + 'd \<Rightarrow> bool" where
  "succeeded (Inl e) = False"
| "succeeded (Inr d) = True"

text \<open>A sequence of calls on one document, with the outcome of each.\<close>

fun addUpdates ::
  "call list \<Rightarrow> 'a complaint_scheme \<times> 'a complaint_scheme option
     \<Rightarrow> (error + 'a complaint_scheme) list \<times> ('a complaint_scheme \<times> 'a complaint_scheme option)"
  where
  "addUpdates [] st = ([], st)"
| "addUpdates (c # cs) st =
     (case addUpdate c st of (r, st') \<Rightarrow>
        (case addUpdates cs st' of (rs, st'') \<Rightarrow> (r # rs, st'')))"

section \<open>Admission control\<close>

text \<open>
  The limiter of the source is configured with 10 points per 60 seconds and keyed by the
  request's address. Time is in milliseconds. A bucket holds what is left of a key's budget
  and the time at which its window ends.
\<close>

record bucket =
  remaining :: nat
  resets_at :: nat

type_synonym limiter = "string \<rightharpoonup> bucket"

definition points :: nat where
  "points = 10"

definition duration :: nat where
  "duration = 60 * 1000"

datatype admission = Admitted | Rejected

text \<open>
  Modelled from the spec: the body of \<open>RateLimiterMemory.consume\<close> is not among the
  sources. The specification: the controller keeps per client key a consumption counter
  that resets after the window elapses. Here a window opens at the first call of a key and
  at the first call after the key's previous window has elapsed, with the full budget.
\<close>

definition current_bucket :: "nat \<Rightarrow> bucket option \<Rightarrow> bucket" where
  "current_bucket now ob =
     (case ob of
        None \<Rightarrow> \<lparr> remaining = points, resets_at = now + duration \<rparr>
      | Some b \<Rightarrow>
          if resets_at b \<le> now then \<lparr> remaining = points, resets_at = now + duration \<rparr>
          else b)"

text \<open>
  Modelled from the spec: the body of \<open>RateLimiterMemory.consume\<close> is not among the
  sources. The specification: each call either decrements the remaining budget and is
  admitted or, if the budget is exhausted, is rejected without side effects.
\<close>

definition consume :: "nat \<Rightarrow> string \<Rightarrow> limiter \<Rightarrow> admission \<times> limiter" where
  "consume now key l =
     (let b = current_bucket now (l key)
      in if 0 < remaining b then (Admitted, l(key \<mapsto> b\<lparr>remaining := remaining b - 1\<rparr>))
         else (Rejected, l))"

text \<open>The middleware of the source: admitted requests go on, rejected ones get status 429.\<close>

datatype response = Next | Send nat string

definition rateLimiterMiddleware :: "nat \<Rightarrow> string \<Rightarrow> limiter \<Rightarrow> response \<times> limiter" where
  "rateLimiterMiddleware now ip l =
     (case consume now ip l of
        (Admitted, l') \<Rightarrow> (Next, l')
      | (Rejected, l') \<Rightarrow> (Send 429 ''Too Many Requests'', l'))"

text \<open>
  A sequence of requests \<open>(time, ip)\<close> through the middleware, and how many requests of
  one key were let through.
\<close>

fun serve :: "(nat \<times> string) list \<Rightarrow> limiter \<Rightarrow> response list \<times> limiter" where
  "serve [] l = ([], l)"
| "serve ((t, ip) # rs) l =
     (case rateLimiterMiddleware t ip l of (r, l') \<Rightarrow>
        (case serve rs l' of (out, l'') \<Rightarrow> (r # out, l'')))"

fun admitted :: "string \<Rightarrow> (nat \<times> string) list \<Rightarrow> response list \<Rightarrow> nat" where
  "admitted key ((t, ip) # rs) (r # out) =
     (if ip = key \<and> r = Next then 1 else 0) + admitted key rs out"
| "admitted key _ _ = 0"

text \<open>
  How many requests of one key with a time in the interval from \<open>a\<close> (included) to
  \<open>b\<close> (excluded) were let through.
\<close>

fun admitted_between ::
  "string \<Rightarrow> nat \<Rightarrow> nat \<Rightarrow> (nat \<times> string) list \<Rightarrow> response list \<Rightarrow> nat" where
  "admitted_between key a b ((t, ip) # rs) (r # out) =
     (if ip = key \<and> r = Next \<and> a \<le> t \<and> t < b then 1 else 0)
       + admitted_between key a b rs out"
| "admitted_between key a b _ _ = 0"

section \<open>Concrete inputs\<close>

text \<open>A document that has its ticket id and no updates yet.\<close>

definition saved_complaint :: complaint where
  "saved_complaint = new_complaint\<lparr>ticketId := Some ''COMP-7-ABCDEF''\<rparr>"

definition env0 :: env where
  "env0 = \<lparr> clock = 1000, random36 = ''0.4fzyo82mvyr'', paths_valid = True, write_ok = True \<rparr>"

definition call_received :: call where
  "call_received = \<lparr> c_status = Some ''received'', c_message = Some ''Logged'',
     c_updatedBy = Some \<lparr> name = ''Ada'', role = ''officer'', email = ''ada@example.org'' \<rparr>,
     c_internal = None, c_now = 1000, c_env = env0 \<rparr>"

definition call_note :: call where
  "call_note = call_received\<lparr>c_status := None, c_message := Some ''Called back'', c_now := 2000\<rparr>"

definition call_bogus :: call where
  "call_bogus = call_received\<lparr>c_status := Some ''bogus''\<rparr>"

definition client :: string where
  "client = ''10.0.0.1''"

definition burst :: "(nat \<times> string) list" where
  "burst = [(1, client), (2, client), (3, client), (4, client), (5, client), (6, client),
     (7, client), (8, client), (9, client), (10, client), (11, client)]"

definition late_burst :: "(nat \<times> string) list" where
  "late_burst = [(59991, client), (59992, client), (59993, client), (59994, client),
     (59995, client), (59996, client), (59997, client), (59998, client), (59999, client),
     (60000, client), (60001, client), (60002, client), (60003, client), (60004, client),
     (60005, client), (60006, client), (60007, client), (60008, client), (60009, client)]"

definition exhausted :: limiter where
  "exhausted = [client \<mapsto> \<lparr> remaining = 0, resets_at = 60000 \<rparr>]"

section \<open>Properties of the classifier\<close>

lemma priority_of_Fin:
  "priority_of (Some (Fin u)) (Some (Fin s)) = rule_table (if u = 0 then 5 else u) s"
  by (simp add: priority_of_def rule_table_def Let_def)

lemma rule_table_clamp:
  "rule_table (clamp 0 10 u) (clamp (- 1) 1 s) = rule_table u s"
  by (simp add: rule_table_def clamp_def lit_m0_3_def max_def min_def)

text \<open>
  Away from urgency 0 the method computes the rule table, and clamping the two scores to
  their documented ranges would not change the tier: every threshold lies inside the
  ranges.
\<close>

lemma priority_of_rule_table:
  "u \<noteq> 0 \<Longrightarrow> priority_of (Some (Fin u)) (Some (Fin s)) = rule_table u s"
  by (simp add: priority_of_Fin)

lemma priority_of_clamped:
  "u \<noteq> 0 \<Longrightarrow>
     priority_of (Some (Fin u)) (Some (Fin s)) = rule_table (clamp 0 10 u) (clamp (- 1) 1 s)"
  by (simp add: priority_of_Fin rule_table_clamp)

lemma priority_of_examples:
  "priority_of (Some (Fin 9)) (Some (Fin (- 0.8))) = Critical"
  "priority_of (Some (Fin 5)) (Some (Fin 0.1)) = Medium"
  "priority_of (Some (Fin 6.5)) (Some (Fin (- 0.6))) = Critical"
  "priority_of (Some (Fin 2)) (Some (Fin 0)) = Low"
  by (simp_all add: priority_of_def lit_m0_3_def)

lemma priority_of_infinite:
  "priority_of (Some PosInf) s = Critical"
  "priority_of (Some NegInf) s = Low"
  by (simp_all add: priority_of_def)

lemma priority_of_NaN:
  "priority_of (Some NaN) s = priority_of None s"
  "priority_of u (Some NaN) = priority_of u None"
  by (simp_all add: priority_of_def)

text \<open>
  C1. For every urgency score in [0,10] and sentiment score in [-1,1] the classifier is
  to return the tier of the rule table. At urgency 0, a score inside the range, it does
  not: \<open>urgencyScore || 5\<close> reads the score 0 as missing, so the document is classified
  as if its urgency were 5 and gets Medium where the table gives Low. (For every other
  urgency the table is what the method computes: \<open>priority_of_rule_table\<close>.)
\<close>

theorem calculatePriority_urgency_zero:
  "fst (calculatePriority
          (new_complaint\<lparr>urgencyScore := Some (Fin 0), sentiment_score := Some (Fin 0)\<rparr>, None))
     = Medium
   \<and> rule_table 0 0 = Low"
  by (simp add: calculatePriority_def priority_of_def rule_table_def new_complaint_def
        lit_m0_3_def)

text \<open>
  C7. The classifier is to return, for all numbers, the tier of the rule table on the
  scores clamped to [0,10] and [-1,1]. With urgency 0 and the out-of-range sentiment -2
  the method answers High, while the table on the clamped scores 0 and -1 gives Low: the
  same reading of urgency 0 as missing. (For every other urgency the method agrees with the
  table on the clamped scores: \<open>priority_of_clamped\<close>.)
\<close>

theorem calculatePriority_zero_not_clamped:
  "fst (calculatePriority
          (new_complaint\<lparr>urgencyScore := Some (Fin 0), sentiment_score := Some (Fin (- 2))\<rparr>,
           None))
     = High
   \<and> rule_table (clamp 0 10 0) (clamp (- 1) 1 (- 2)) = Low"
  by (simp add: calculatePriority_def priority_of_def rule_table_def clamp_def
        new_complaint_def lit_m0_3_def)

text \<open>
  C8. When the scores are missing the classifier still returns a tier, computed from the
  defaults urgency 5 and sentiment 0: with both missing the tier is Medium, a missing
  urgency score is classified as urgency 5 and a missing sentiment score as sentiment 0.
  The method has no failing branch.
\<close>

theorem calculatePriority_missing_scores:
  "fst (calculatePriority (this\<lparr>urgencyScore := None, sentiment_score := None\<rparr>, db)) = Medium
   \<and> fst (calculatePriority (this\<lparr>urgencyScore := None\<rparr>, db))
       = fst (calculatePriority (this\<lparr>urgencyScore := Some (Fin 5)\<rparr>, db))
   \<and> fst (calculatePriority (this\<lparr>sentiment_score := None\<rparr>, db))
       = fst (calculatePriority (this\<lparr>sentiment_score := Some (Fin 0)\<rparr>, db))"
  by (simp add: calculatePriority_def priority_of_def Let_def lit_m0_3_def)

text \<open>
  C9, as the code has it. Computing the tier writes it into the \<open>priority\<close> path of the
  document; every other path of the document is left as it was, and the durable copy is not
  touched (the method does not save).
\<close>

theorem calculatePriority_frame:
  "(case calculatePriority (this, db) of (p, (this', db')) \<Rightarrow>
      p = priority_of (urgencyScore this) (sentiment_score this)
      \<and> priority this' = p
      \<and> this'\<lparr>priority := priority this\<rparr> = this
      \<and> db' = db)"
  by (simp add: calculatePriority_def Let_def)

text \<open>
  C9 as stated fails: a document with the default priority Medium and urgency 9 has
  priority Critical after the call.
\<close>

theorem calculatePriority_writes_priority:
  "priority (new_complaint\<lparr>urgencyScore := Some (Fin 9)\<rparr>) = Medium
   \<and> priority (fst (snd (calculatePriority (new_complaint\<lparr>urgencyScore := Some (Fin 9)\<rparr>, None))))
       = Critical
   \<and> fst (snd (calculatePriority (new_complaint\<lparr>urgencyScore := Some (Fin 9)\<rparr>, None)))
       \<noteq> new_complaint\<lparr>urgencyScore := Some (Fin 9)\<rparr>"
  by (simp add: calculatePriority_def priority_of_def new_complaint_def)

text \<open>
  C10. A document built from the schema defaults has priority Medium, and Medium is what
  the classifier returns on the default scores urgency 5 and sentiment 0, and on that
  document itself.
\<close>

theorem default_priority_consistent:
  "priority new_complaint = Medium
   \<and> priority_of (Some (Fin 5)) (Some (Fin 0)) = Medium
   \<and> fst (calculatePriority (new_complaint, None)) = Medium"
  by (simp add: calculatePriority_def priority_of_def new_complaint_def lit_m0_3_def)

section \<open>Properties of addUpdate\<close>

lemma valid_status_iff:
  "valid_status s \<longleftrightarrow> s = ''submitted'' \<or> s = ''received'' \<or> s = ''under_review''
     \<or> s = ''investigating'' \<or> s = ''pending_response'' \<or> s = ''resolved''
     \<or> s = ''closed'' \<or> s = ''escalated''"
  by (simp add: valid_status_def status_values_def)

lemma updates_addUpdate:
  "updates (fst (snd (addUpdate c (this, db)))) = updates this @ [entry_of c]"
  by (simp add: addUpdate_def save_def pre_save_def Let_def split: option.splits)

lemma updates_addUpdates:
  "updates (fst (snd (addUpdates cs (this, db)))) = updates this @ map entry_of cs"
proof (induction cs arbitrary: this db)
  case Nil
  show ?case by simp
next
  case (Cons c cs)
  obtain r this1 db1 where s1: "addUpdate c (this, db) = (r, (this1, db1))"
    by (metis prod.exhaust)
  obtain rs this2 db2 where s2: "addUpdates cs (this1, db1) = (rs, (this2, db2))"
    by (metis prod.exhaust)
  have "updates this1 = updates this @ [entry_of c]"
    using updates_addUpdate [of c this db] s1 by simp
  moreover have "updates this2 = updates this1 @ map entry_of cs"
    using Cons.IH [of this1 db1] s2 by simp
  ultimately show ?case using s1 s2 by simp
qed

lemma length_addUpdates: "length (fst (addUpdates cs st)) = length cs"
proof (induction cs arbitrary: st)
  case Nil
  show ?case by simp
next
  case (Cons c cs)
  obtain r st1 where s1: "addUpdate c st = (r, st1)" by (metis prod.exhaust)
  obtain rs st2 where s2: "addUpdates cs st1 = (rs, st2)" by (metis prod.exhaust)
  from Cons.IH [of st1] s1 s2 show ?case by simp
qed

text \<open>A call that resolves has written the in-memory document to the store.\<close>

lemma addUpdate_Inr_stored:
  "fst (addUpdate c st) = Inr d \<Longrightarrow>
     snd (snd (addUpdate c st)) = Some (fst (snd (addUpdate c st)))
     \<and> d = fst (snd (addUpdate c st))"
  by (cases st) (auto simp: addUpdate_def save_def Let_def split: option.splits if_splits)

lemma addUpdates_last_stored:
  "cs \<noteq> [] \<Longrightarrow> \<exists>d. last (fst (addUpdates cs st)) = Inr d \<Longrightarrow>
     snd (snd (addUpdates cs st)) = Some (fst (snd (addUpdates cs st)))"
proof (induction cs arbitrary: st)
  case Nil
  then show ?case by simp
next
  case (Cons c cs)
  obtain r st1 where s1: "addUpdate c st = (r, st1)" by (metis prod.exhaust)
  obtain rs st2 where s2: "addUpdates cs st1 = (rs, st2)" by (metis prod.exhaust)
  show ?case
  proof (cases "cs = []")
    case True
    with Cons.prems s1 addUpdate_Inr_stored [of c st] show ?thesis by auto
  next
    case False
    then have "rs \<noteq> []" using s2 by (cases cs) (auto split: prod.splits)
    with Cons.prems s1 s2 have "\<exists>d. last (fst (addUpdates cs st1)) = Inr d" by simp
    from Cons.IH [OF False this] s1 s2 show ?thesis by simp
  qed
qed

text \<open>
  C2, as the code has it. A call with a non-empty status string outside the enum of the
  schema is rejected with a ValidationError and writes nothing to the store, but the
  in-memory document is not rolled back: the entry has been appended to \<open>updates\<close> and
  \<open>status\<close> holds the rejected string.
\<close>

theorem addUpdate_rejected_status:
  "c_status c = Some s \<Longrightarrow> s \<noteq> [] \<Longrightarrow> \<not> valid_status s \<Longrightarrow>
     addUpdate c (this, db)
       = (Inl ValidationError, (this\<lparr>updates := updates this @ [entry_of c], status := s\<rparr>, db))"
  by (simp add: addUpdate_def save_def Let_def)

theorem addUpdate_rejected_status_witness:
  "addUpdate call_bogus (saved_complaint, None)
     = (Inl ValidationError,
        (saved_complaint\<lparr>updates := [entry_of call_bogus], status := ''bogus''\<rparr>, None))"
  using addUpdate_rejected_status [of call_bogus "''bogus''" saved_complaint None]
  by (simp add: valid_status_iff saved_complaint_def new_complaint_def call_bogus_def
        call_received_def)

text \<open>
  An empty status string is falsy: the entry records it, \<open>status\<close> is not overwritten,
  and the outcome is that of saving the document with the entry appended.
\<close>

lemma addUpdate_empty_status:
  "c_status c = Some [] \<Longrightarrow>
     addUpdate c (this, db) = save (c_env c) (this\<lparr>updates := updates this @ [entry_of c]\<rparr>, db)"
  by (simp add: addUpdate_def Let_def)

text \<open>
  C2 as stated fails: on a document that has its ticket id, so that the status is the only
  thing to reject, the status after the rejected call is no longer \<open>submitted\<close> and the
  \<open>updates\<close> array has one entry instead of none.
\<close>

theorem addUpdate_rejected_not_atomic:
  "fst (addUpdate call_bogus (saved_complaint, None)) = Inl ValidationError
   \<and> status saved_complaint = ''submitted''
   \<and> status (fst (snd (addUpdate call_bogus (saved_complaint, None)))) = ''bogus''
   \<and> length (updates saved_complaint) = 0
   \<and> length (updates (fst (snd (addUpdate call_bogus (saved_complaint, None))))) = 1"
  by (simp add: addUpdate_def save_def Let_def valid_status_iff saved_complaint_def
        new_complaint_def call_bogus_def call_received_def)

text \<open>
  C4, as the code has it. The \<open>updates\<close> array is append-only, and it grows with every
  call, not only with the successful ones: one call, resolved or rejected, appends exactly
  one entry at the end; a sequence of N calls appends their N entries in order, so the
  entries that were there before keep their content and their position; and when all N
  calls on a document without updates succeed, the array has exactly N entries in memory
  and in the store.
\<close>

theorem addUpdate_append_only:
  "updates (fst (snd (addUpdate c (this, db)))) = updates this @ [entry_of c]
   \<and> updates (fst (snd (addUpdates cs (this, db)))) = updates this @ map entry_of cs
   \<and> length (updates (fst (snd (addUpdates cs (this, db)))))
       = length (updates this) + length cs
   \<and> take (length (updates this)) (updates (fst (snd (addUpdates cs (this, db)))))
       = updates this
   \<and> (updates this = [] \<and> cs \<noteq> []
        \<and> (\<forall>r \<in> set (fst (addUpdates cs (this, db))). succeeded r)
      \<longrightarrow> length (updates (fst (snd (addUpdates cs (this, db))))) = length cs
          \<and> snd (snd (addUpdates cs (this, db))) = Some (fst (snd (addUpdates cs (this, db)))))"
proof -
  let ?out = "addUpdates cs (this, db)"
  have a: "updates (fst (snd ?out)) = updates this @ map entry_of cs"
    by (rule updates_addUpdates)
  have b: "snd (snd ?out) = Some (fst (snd ?out))"
    if "cs \<noteq> []" and "\<forall>r \<in> set (fst ?out). succeeded r"
  proof -
    from that(1) length_addUpdates [of cs "(this, db)"] have "fst ?out \<noteq> []" by auto
    then have "last (fst ?out) \<in> set (fst ?out)" by simp
    with that(2) have "succeeded (last (fst ?out))" by blast
    then have "\<exists>d. last (fst ?out) = Inr d" by (cases "last (fst ?out)") simp_all
    with that(1) show ?thesis by (rule addUpdates_last_stored)
  qed
  show ?thesis using a b by (simp add: updates_addUpdate)
qed

theorem addUpdate_append_only_witness:
  "length (updates (fst (snd (addUpdates [call_received, call_note] (saved_complaint, None))))) = 2
   \<and> snd (snd (addUpdates [call_received, call_note] (saved_complaint, None)))
       = Some (fst (snd (addUpdates [call_received, call_note] (saved_complaint, None))))"
proof -
  let ?cs = "[call_received, call_note]"
  have h: "updates saved_complaint = [] \<and> ?cs \<noteq> []
        \<and> (\<forall>r \<in> set (fst (addUpdates ?cs (saved_complaint, None))). succeeded r)"
    by (simp add: addUpdate_def save_def pre_save_def Let_def valid_status_iff
          saved_complaint_def new_complaint_def call_received_def call_note_def env0_def)
  show ?thesis
    using h addUpdate_append_only [of call_received saved_complaint None ?cs] by simp
qed

text \<open>
  C4 as stated fails: the number of entries is not the number of successful calls. On a
  document without updates, a rejected call followed by a successful one makes one
  successful call and two entries, in memory and in the store.
\<close>

theorem addUpdate_rejected_call_appends:
  "map succeeded (fst (addUpdates [call_bogus, call_received] (saved_complaint, None)))
     = [False, True]
   \<and> length (updates saved_complaint) = 0
   \<and> length (updates (fst (snd (addUpdates [call_bogus, call_received]
                                   (saved_complaint, None))))) = 2
   \<and> map_option updates
        (snd (snd (addUpdates [call_bogus, call_received] (saved_complaint, None))))
       = Some [entry_of call_bogus, entry_of call_received]"
  by (simp add: addUpdate_def save_def pre_save_def Let_def valid_status_iff
        saved_complaint_def new_complaint_def call_bogus_def call_received_def env0_def)

section \<open>Properties of the ticket identifier\<close>

lemma make_ticketId_nonempty: "make_ticketId e \<noteq> []"
  by (simp add: make_ticketId_def Let_def)

lemma make_ticketId_env0: "make_ticketId env0 = ''COMP-RS-4FZYO8''"
  by code_simp

text \<open>
  C5. The pre-save step assigns a ticket id only to a document that has none; on a
  document that has one it changes nothing, so running it again after it has assigned an
  id changes nothing either; and no method of the model changes an id once it is there.
\<close>

theorem ticketId_assigned_once:
  "(truthy_str (ticketId this) \<longrightarrow> pre_save e this = this)
   \<and> (\<not> truthy_str (ticketId this) \<longrightarrow> ticketId (pre_save e this) = Some (make_ticketId e))
   \<and> truthy_str (ticketId (pre_save e this))
   \<and> pre_save e' (pre_save e this) = pre_save e this
   \<and> (truthy_str (ticketId this) \<longrightarrow>
        ticketId (fst (snd (save e (this, db)))) = ticketId this
        \<and> ticketId (fst (snd (addUpdate c (this, db)))) = ticketId this
        \<and> ticketId (fst (snd (calculatePriority (this, db)))) = ticketId this)"
  by (simp add: pre_save_def make_ticketId_nonempty save_def addUpdate_def calculatePriority_def
        Let_def split: option.splits)

theorem ticketId_assigned_once_witness:
  "ticketId (pre_save env0 new_complaint) = Some ''COMP-RS-4FZYO8''
   \<and> pre_save env0 (new_complaint\<lparr>ticketId := Some ''COMP-7-ABCDEF''\<rparr>)
       = new_complaint\<lparr>ticketId := Some ''COMP-7-ABCDEF''\<rparr>
   \<and> ticketId (fst (snd (addUpdate call_received
                           (new_complaint\<lparr>ticketId := Some ''COMP-7-ABCDEF''\<rparr>, None))))
       = Some ''COMP-7-ABCDEF''"
  using ticketId_assigned_once [of new_complaint env0 env0 None call_received]
    ticketId_assigned_once [of "new_complaint\<lparr>ticketId := Some ''COMP-7-ABCDEF''\<rparr>" env0 env0
      None call_received]
  by (simp add: new_complaint_def make_ticketId_env0)

section \<open>Properties of admission control\<close>

lemma consume_other_key:
  "ip \<noteq> key \<Longrightarrow> snd (consume t ip l) key = l key"
  by (simp add: consume_def Let_def)

lemma middleware_other_key:
  "ip \<noteq> key \<Longrightarrow> snd (rateLimiterMiddleware t ip l) key = l key"
  using consume_other_key [of ip key t l]
  by (cases "consume t ip l") (auto simp: rateLimiterMiddleware_def split: admission.splits)

lemma middleware_open_window:
  "l key = Some b \<Longrightarrow> t < resets_at b \<Longrightarrow>
     rateLimiterMiddleware t key l =
       (if 0 < remaining b then (Next, l(key \<mapsto> b\<lparr>remaining := remaining b - 1\<rparr>))
        else (Send 429 ''Too Many Requests'', l))"
  by (simp add: rateLimiterMiddleware_def consume_def current_bucket_def Let_def)

lemma middleware_new_window:
  "l key = None \<or> (\<exists>b. l key = Some b \<and> resets_at b \<le> t) \<Longrightarrow>
     rateLimiterMiddleware t key l =
       (Next, l(key \<mapsto> \<lparr> remaining = points - 1, resets_at = t + duration \<rparr>))"
  by (auto simp: rateLimiterMiddleware_def consume_def current_bucket_def Let_def points_def)

text \<open>
  While the window of a key is open, the requests of that key that are let through are
  paid from what remains of its budget.
\<close>

lemma admitted_within_window:
  "l key = Some b \<Longrightarrow> \<forall>(t, ip) \<in> set rs. ip = key \<longrightarrow> t < resets_at b \<Longrightarrow>
     admitted key rs (fst (serve rs l)) \<le> remaining b"
proof (induction rs arbitrary: l b)
  case Nil
  show ?case by simp
next
  case (Cons r rs)
  obtain t ip where r: "r = (t, ip)" by (cases r)
  obtain x l1 where s1: "rateLimiterMiddleware t ip l = (x, l1)" by (metis prod.exhaust)
  obtain out l2 where s2: "serve rs l1 = (out, l2)" by (metis prod.exhaust)
  have rest: "\<forall>(t, ip) \<in> set rs. ip = key \<longrightarrow> t < resets_at b"
    using Cons.prems(2) by simp
  show ?case
  proof (cases "ip = key")
    case False
    then have "l1 key = Some b"
      using middleware_other_key [of ip key t l] s1 Cons.prems(1) by simp
    from Cons.IH [of l1 b] this rest False r s1 s2 show ?thesis by simp
  next
    case True
    then have tlt: "t < resets_at b" using Cons.prems(2) r by simp
    have step: "rateLimiterMiddleware t key l =
       (if 0 < remaining b then (Next, l(key \<mapsto> b\<lparr>remaining := remaining b - 1\<rparr>))
        else (Send 429 ''Too Many Requests'', l))"
      using middleware_open_window [of l key b t] Cons.prems(1) tlt by simp
    show ?thesis
    proof (cases "0 < remaining b")
      case True
      with step s1 \<open>ip = key\<close> have x: "x = Next"
        and l1: "l1 key = Some (b\<lparr>remaining := remaining b - 1\<rparr>)" by auto
      have "\<forall>(t, ip) \<in> set rs. ip = key \<longrightarrow> t < resets_at (b\<lparr>remaining := remaining b - 1\<rparr>)"
        using rest by simp
      from Cons.IH [of l1 "b\<lparr>remaining := remaining b - 1\<rparr>"] l1 this s2
      have "admitted key rs out \<le> remaining b - 1" by simp
      with True x r s1 s2 \<open>ip = key\<close> show ?thesis by simp
    next
      case False
      with step s1 \<open>ip = key\<close> have x: "x \<noteq> Next" and l1: "l1 = l" by auto
      from Cons.IH [of l b] Cons.prems(1) rest l1 s2
      have "admitted key rs out \<le> remaining b" by simp
      with x r s1 s2 show ?thesis by simp
    qed
  qed
qed

text \<open>
  C3, as the model has it. The bound of 10 holds in the windows of the limiter, not in
  every interval of 60 seconds. In one window of a key the middleware lets at most 10 of
  its requests through: a window is opened by a request \<open>(t0, key)\<close> that finds no bucket
  or an elapsed one, and holds the requests of the key before \<open>t0 + 60 s\<close>, interleaved at
  will with requests of other keys. Once the budget of the open window is used up, a
  further request of the key is answered with 429 Too Many Requests and leaves the limiter
  as it was.
\<close>

theorem window_budget:
  "((l key = None \<or> (\<exists>b. l key = Some b \<and> resets_at b \<le> t0))
      \<and> (\<forall>(t, ip) \<in> set rs. ip = key \<longrightarrow> t < t0 + duration)
    \<longrightarrow> admitted key ((t0, key) # rs) (fst (serve ((t0, key) # rs) l)) \<le> 10)
   \<and> (\<forall>b t. l key = Some b \<and> remaining b = 0 \<and> t < resets_at b
        \<longrightarrow> rateLimiterMiddleware t key l = (Send 429 ''Too Many Requests'', l))"
proof -
  have a: "admitted key ((t0, key) # rs) (fst (serve ((t0, key) # rs) l)) \<le> 10"
    if op: "l key = None \<or> (\<exists>b. l key = Some b \<and> resets_at b \<le> t0)"
      and win: "\<forall>(t, ip) \<in> set rs. ip = key \<longrightarrow> t < t0 + duration"
  proof -
    let ?b = "\<lparr> remaining = points - 1, resets_at = t0 + duration \<rparr>"
    let ?l = "l(key \<mapsto> ?b)"
    have s1: "rateLimiterMiddleware t0 key l = (Next, ?l)"
      using op by (rule middleware_new_window)
    have "admitted key rs (fst (serve rs ?l)) \<le> remaining ?b"
      using win by (intro admitted_within_window) simp_all
    then have "admitted key rs (fst (serve rs ?l)) \<le> 9" by (simp add: points_def)
    then show ?thesis using s1 by (cases "serve rs ?l") simp
  qed
  have b: "rateLimiterMiddleware t key l = (Send 429 ''Too Many Requests'', l)"
    if "l key = Some b" "remaining b = 0" "t < resets_at b" for b t
    using middleware_open_window [of l key b t] that by simp
  show ?thesis using a b by blast
qed

lemma serve_burst:
  "fst (serve ((0, client) # burst) Map.empty)
     = [Next, Next, Next, Next, Next, Next, Next, Next, Next, Next,
        Send 429 ''Too Many Requests'', Send 429 ''Too Many Requests'']"
  by (simp add: burst_def rateLimiterMiddleware_def consume_def current_bucket_def Let_def
        points_def duration_def)

theorem window_budget_witness:
  "admitted client ((0, client) # burst) (fst (serve ((0, client) # burst) Map.empty)) = 10
   \<and> rateLimiterMiddleware 59999 client exhausted = (Send 429 ''Too Many Requests'', exhausted)"
proof -
  have h1: "(Map.empty client = None \<or> (\<exists>b. Map.empty client = Some b \<and> resets_at b \<le> 0))
      \<and> (\<forall>(t, ip) \<in> set burst. ip = client \<longrightarrow> t < 0 + duration)"
    by (simp add: burst_def duration_def)
  have h2: "exhausted client = Some \<lparr> remaining = 0, resets_at = 60000 \<rparr>
      \<and> remaining \<lparr> remaining = 0, resets_at = 60000 \<rparr> = 0
      \<and> (59999::nat) < resets_at \<lparr> remaining = 0, resets_at = 60000 \<rparr>"
    by (simp add: exhausted_def)
  have "admitted client ((0, client) # burst) (fst (serve ((0, client) # burst) Map.empty)) \<le> 10"
    using h1 window_budget [of Map.empty client 0 burst] by blast
  moreover have "admitted client ((0, client) # burst)
       (fst (serve ((0, client) # burst) Map.empty)) = 10"
    by (subst serve_burst) (simp add: burst_def)
  moreover have "rateLimiterMiddleware 59999 client exhausted
       = (Send 429 ''Too Many Requests'', exhausted)"
    using h2 window_budget [of exhausted client 0 "[]"] by blast
  ultimately show ?thesis by simp
qed

text \<open>
  C6. A key whose budget is used up is let through again by the first request made once
  its window has elapsed: that request opens a new window with the full budget, of which
  it takes one point.
\<close>

theorem window_reset:
  "l key = Some b \<Longrightarrow> remaining b = 0 \<Longrightarrow> resets_at b \<le> t \<Longrightarrow>
     rateLimiterMiddleware t key l
       = (Next, l(key \<mapsto> \<lparr> remaining = points - 1, resets_at = t + duration \<rparr>))"
  by (rule middleware_new_window) simp

theorem window_reset_witness:
  "rateLimiterMiddleware 60000 client exhausted
     = (Next, exhausted(client \<mapsto> \<lparr> remaining = 9, resets_at = 120000 \<rparr>))"
  using window_reset [of exhausted client "\<lparr> remaining = 0, resets_at = 60000 \<rparr>" 60000]
  by (simp add: exhausted_def points_def duration_def)

text \<open>
  Nine requests at the end of one window and ten at the start of the next are all let
  through.
\<close>

lemma serve_late_burst:
  "fst (serve late_burst (snd (serve [(0, client)] Map.empty)))
     = [Next, Next, Next, Next, Next, Next, Next, Next, Next, Next,
        Next, Next, Next, Next, Next, Next, Next, Next, Next]"
  by (simp add: late_burst_def rateLimiterMiddleware_def consume_def current_bucket_def Let_def
        points_def duration_def)

text \<open>
  C3 as stated fails: after a first request at time 0, the 60 seconds that begin at
  59.991 s hold nineteen admitted requests of the one client.
\<close>

theorem rolling_window_over_budget:
  "admitted_between client 59991 (59991 + duration) ((0, client) # late_burst)
     (fst (serve ((0, client) # late_burst) Map.empty)) = 19"
  by (simp add: late_burst_def rateLimiterMiddleware_def consume_def current_bucket_def Let_def
        points_def duration_def)

text \<open>The exhausted limiter is the one that twelve requests of the client leave behind.\<close>

lemma exhausted_reached:
  "snd (serve ((0, client) # burst) Map.empty) = exhausted"
  by (simp add: burst_def exhausted_def rateLimiterMiddleware_def consume_def
        current_bucket_def Let_def points_def duration_def)

end
